theory Spec2Isabelle
  imports
    Complex_Main
    "HOL-Library.FSet"
    "HOL-Library.AList"
    "HOL-Library.Product_Lexorder"
    "HOL-Library.List_Lexorder"
    "HOL-Library.Char_ord"
begin

section \<open>Battleship: the Bayesian and the Statistics sampler\<close>

text \<open>
  The repository holds two variants of one program:
  \<^verbatim>\<open>BayesianSampling/Battleship.py\<close> and \<^verbatim>\<open>StatisticsSampling/Battleship.py\<close>.
  Definitions translated from the first keep the source's names; definitions translated
  from the second carry the suffix \<open>_S\<close>.

  \<^item> A Python \<^verbatim>\<open>set\<close> of cells is a finite set (\<open>cell fset\<close>). Where the source iterates
    over a set or turns it into a list (\<^verbatim>\<open>for hit in self.hits\<close>, \<^verbatim>\<open>list(location)\<close>),
    Python leaves the order open; the model enumerates in ascending order
    (\<open>sorted_list_of_fset\<close>), and the lemmas on these loops are proved for every order.
  \<^item> A Python \<^verbatim>\<open>dict\<close> is an association list in insertion order: \<open>AList.update\<close>
    overwrites in place or appends, as assignment to a key does; a lookup of a missing
    key raises \<open>KeyError\<close>.
  \<^item> Exceptions are values of \<open>error\<close>; a function that can raise or loop returns a
    \<open>res\<close>: \<open>Raises e\<close>, \<open>Returns x\<close>, or \<open>OutOfFuel\<close> when a \<^verbatim>\<open>while\<close> loop has not
    ended after \<open>fuel\<close> rounds.
  \<^item> numpy's and random's generators are an explicit source of draws
    \<open>rnd = nat \<Rightarrow> nat\<close>: a draw reads position 0 and shifts the source.
  \<^item> The wall clock of the Statistics variant is a source of answers
    \<open>clock = nat \<Rightarrow> bool\<close>: the answer to "has the budget run out?" at each test.
\<close>

subsection \<open>Values\<close>

type_synonym cell = "int \<times> int"
type_synonym name = string
type_synonym ('k, 'v) dict = "('k \<times> 'v) list"
type_synonym rnd = "nat \<Rightarrow> nat"
type_synonym clock = "nat \<Rightarrow> bool"

datatype error = ValueError | KeyError | IndexError | AttributeError

datatype 'a res = OutOfFuel | Raises error | Returns 'a

fun bind_res :: "'a res \<Rightarrow> ('a \<Rightarrow> 'b res) \<Rightarrow> 'b res" where
  "bind_res OutOfFuel f = OutOfFuel"
| "bind_res (Raises e) f = Raises e"
| "bind_res (Returns x) f = f x"

text \<open>An element of a candidate list of the Bayesian variant: a placement (a set of
  cells), or a single cell, which is what \<^verbatim>\<open>list(location)\<close> puts there.\<close>

datatype entry = Config "cell fset" | Coord cell

text \<open>What \<^verbatim>\<open>randomSelection\<close> returns: \<^verbatim>\<open>set()\<close> or \<^verbatim>\<open>list(final_set)\<close>.\<close>

datatype sample = EmptySet | CellList "cell list"

fun len_sample :: "sample \<Rightarrow> nat" where
  "len_sample EmptySet = 0"
| "len_sample (CellList cs) = length cs"

subsection \<open>Python primitives\<close>

definition getitem :: "('k, 'v) dict \<Rightarrow> 'k \<Rightarrow> 'v res" where
  "getitem d k = (case map_of d k of None \<Rightarrow> Raises KeyError | Some v \<Rightarrow> Returns v)"

definition dict_of :: "('k \<times> 'v) list \<Rightarrow> ('k, 'v) dict" where
  "dict_of ps = foldl (\<lambda>d (k, v). AList.update k v d) [] ps"

definition delitem :: "('k, 'v) dict \<Rightarrow> 'k \<Rightarrow> ('k, 'v) dict res" where
  "delitem d k = (if k \<in> fst ` set d then Returns (AList.delete k d) else Raises KeyError)"

definition list_getitem :: "'a list \<Rightarrow> nat \<Rightarrow> 'a res" where
  "list_getitem xs i = (if i < length xs then Returns (xs ! i) else Raises IndexError)"

definition py_range :: "int \<Rightarrow> int list" where
  "py_range n = [0..n - 1]"

definition isdisjoint :: "cell fset \<Rightarrow> cell fset \<Rightarrow> bool" where
  "isdisjoint a b = (a |\<inter>| b = {||})"

definition union_all :: "cell fset list \<Rightarrow> cell fset" where
  "union_all xs = foldl (|\<union>|) {||} xs"

definition rnext :: "rnd \<Rightarrow> rnd" where
  "rnext r = (\<lambda>i. r (Suc i))"

definition cnext :: "clock \<Rightarrow> clock" where
  "cnext c = (\<lambda>i. c (Suc i))"

text \<open>\<^verbatim>\<open>np.random.randint(n)\<close>: a draw below \<open>n\<close>; numpy raises \<open>ValueError\<close> when
  \<open>n \<le> 0\<close>.\<close>

definition randint :: "nat \<Rightarrow> rnd \<Rightarrow> (nat \<times> rnd) res" where
  "randint n r = (if n = 0 then Raises ValueError else Returns (r 0 mod n, rnext r))"

text \<open>\<^verbatim>\<open>np.random.choice(xs)\<close> on a list the caller has found non-empty.\<close>

definition choice :: "'a list \<Rightarrow> rnd \<Rightarrow> ('a \<times> rnd) res" where
  "choice xs r = (if xs = [] then Raises ValueError else Returns (xs ! (r 0 mod length xs), rnext r))"

text \<open>\<^verbatim>\<open>itertools.permutations\<close>: for each position in turn, the element there followed
  by the permutations of the others.\<close>

function permutations :: "'a list \<Rightarrow> 'a list list" where
  "permutations xs =
     (if xs = [] then [[]]
      else concat (map (\<lambda>i. map ((#) (xs ! i)) (permutations (take i xs @ drop (Suc i) xs)))
                       [0..<length xs]))"
  by pat_completeness auto
termination
  by (relation "measure length") auto

declare permutations.simps [simp del]

text \<open>\<^verbatim>\<open>random.shuffle(xs)\<close>: one of the permutations of \<open>xs\<close>.\<close>

definition shuffle :: "'a list \<Rightarrow> rnd \<Rightarrow> 'a list \<times> rnd" where
  "shuffle xs r = (let ps = permutations xs in (ps ! (r 0 mod length ps), rnext r))"

definition ascii_lowercase :: string where
  "ascii_lowercase = ''abcdefghijklmnopqrstuvwxyz''"

text \<open>\<^verbatim>\<open>Counter(boards).most_common()\<close>: the cells in the order of their first occurrence,
  each with its count, sorted by falling count; the sort is stable.\<close>

definition counter :: "cell list \<Rightarrow> (cell, nat) dict" where
  "counter boards = map (\<lambda>c. (c, count_list boards c)) (rev (remdups (rev boards)))"

definition most_common :: "(cell, nat) dict \<Rightarrow> (cell, nat) dict" where
  "most_common d = sort_key (\<lambda>(c, n). - int n) d"

text \<open>\<^verbatim>\<open>max(d, key=d.get)\<close>: the first key holding the greatest value; \<open>ValueError\<close> on
  an empty dictionary.\<close>

fun max_key :: "(cell, nat) dict \<Rightarrow> cell res" where
  "max_key [] = Raises ValueError"
| "max_key ((c, n) # d) =
     Returns (fst (foldl (\<lambda>(bc, bn) (c', n'). if bn < n' then (c', n') else (bc, bn)) (c, n) d))"

subsection \<open>The game object\<close>

text \<open>
  One record holds the attributes of \<^verbatim>\<open>BattleshipAutoplay\<close> of either variant (the classes
  \<^verbatim>\<open>Battleship\<close>, \<^verbatim>\<open>BattleshipPlayer\<close> or \<^verbatim>\<open>BattleshipEnv\<close>, \<^verbatim>\<open>BattleshipAutoplay\<close> extend one
  another). \<open>numPerms\<close>, \<open>randomOrderDict\<close>, \<open>lastTurnBoards\<close>, \<open>randomOrder\<close>, \<open>batchSize\<close>,
  \<open>printTime\<close> and \<open>numMaxHits\<close> exist in the Bayesian variant only, \<open>lag\<close> in the Statistics
  variant only. The type \<open>'c\<close> is that of a candidate list: \<open>entry list\<close> in the Bayesian
  variant, \<open>cell fset list\<close> in the Statistics variant.
\<close>

record 'c game =
  dim :: int
  numShips :: nat
  ships :: "int list"
  names :: "name list"
  sunkDict :: "(name, int) dict"
  shipLengths :: "(name, int) dict"
  possibleShipsDict :: "(name, cell fset list) dict"
  possibleShipsNumDict :: "(name, nat) dict"
  numPerms :: nat
  randomOrderDict :: "(nat, name list) dict"
  boats :: "(name \<times> cell fset) list"
  board :: "cell fset"
  hits :: "cell fset"
  hitsSunk :: "cell fset"
  misses :: "cell fset"
  possibleShipsDictCond :: "(name, 'c) dict"
  possibleShipsNumDictCond :: "(name, nat) dict"
  lastTurnBoards :: "cell fset list"
  nextInx :: cell
  randomOrder :: bool
  batchSize :: int
  printTime :: bool
  numMaxHits :: int
  lag :: real
  order :: "name list"
  aggDict :: "(cell, nat) dict"
  numIter :: nat

text \<open>An object before its constructor has assigned anything.\<close>

definition new_object :: "'c game" where
  "new_object =
     \<lparr>dim = 0, numShips = 0, ships = [], names = [], sunkDict = [], shipLengths = [],
      possibleShipsDict = [], possibleShipsNumDict = [], numPerms = 0, randomOrderDict = [],
      boats = [], board = {||}, hits = {||}, hitsSunk = {||}, misses = {||},
      possibleShipsDictCond = [], possibleShipsNumDictCond = [], lastTurnBoards = [],
      nextInx = (0, 0), randomOrder = False, batchSize = 0, printTime = False,
      numMaxHits = 0, lag = 0, order = [], aggDict = [], numIter = 0\<rparr>"

subsection \<open>Bayesian variant: class Battleship\<close>

definition generateRandomOrders :: "'c game \<Rightarrow> 'c game" where
  "generateRandomOrders s =
     (let perms = permutations (names s)
      in s\<lparr>numPerms := length perms,
           randomOrderDict := dict_of (zip [0..<length perms] perms)\<rparr>)"

text \<open>The runs along the first axis, and those along the second.\<close>

definition orientations1 :: "int \<Rightarrow> int \<Rightarrow> cell fset list" where
  "orientations1 d L =
     concat (map (\<lambda>i. map (\<lambda>j. fset_of_list (map (\<lambda>temp. (i + temp, j)) (py_range L)))
                             (py_range d))
                 (py_range (d - L + 1)))"

definition orientations2 :: "int \<Rightarrow> int \<Rightarrow> cell fset list" where
  "orientations2 d L =
     concat (map (\<lambda>i. map (\<lambda>j. fset_of_list (map (\<lambda>temp. (j, i + temp)) (py_range L)))
                             (py_range d))
                 (py_range (d - L + 1)))"

fun generateComponentLayouts_loop :: "name list \<Rightarrow> 'c game \<Rightarrow> 'c game res" where
  "generateComponentLayouts_loop [] s = Returns s"
| "generateComponentLayouts_loop (name # ns) s =
     bind_res (getitem (shipLengths s) name) (\<lambda>L.
       let o1 = orientations1 (dim s) L; o2 = orientations2 (dim s) L
       in generateComponentLayouts_loop ns
            (s\<lparr>possibleShipsDict := AList.update name (o1 @ o2) (possibleShipsDict s),
               possibleShipsNumDict :=
                 AList.update name (length o1 + length o2) (possibleShipsNumDict s)\<rparr>))"

definition generateComponentLayouts :: "'c game \<Rightarrow> 'c game res" where
  "generateComponentLayouts s =
     generateComponentLayouts_loop (names s)
       (s\<lparr>possibleShipsDict := [], possibleShipsNumDict := []\<rparr>)"

definition Battleship_init :: "int \<Rightarrow> int list \<Rightarrow> 'c game res" where
  "Battleship_init d shs =
     (let nms = map (\<lambda>c. [c]) (take (length shs) ascii_lowercase);
          s = new_object\<lparr>dim := d, numShips := length shs, ships := shs, names := nms,
                sunkDict := dict_of (zip nms (map (\<lambda>i. 0) shs)),
                shipLengths := dict_of (zip nms shs)\<rparr>
      in bind_res (generateComponentLayouts s) (\<lambda>s. Returns (generateRandomOrders s)))"

text \<open>The \<^verbatim>\<open>while 1\<close> loop of \<^verbatim>\<open>randomBoard\<close>: draw placements of one ship until one is
  disjoint from the cells placed so far.\<close>

fun randomBoard_draw ::
  "nat \<Rightarrow> cell fset list \<Rightarrow> nat \<Rightarrow> cell fset \<Rightarrow> rnd \<Rightarrow> (cell fset \<times> rnd) res" where
  "randomBoard_draw 0 placements n final_set r = OutOfFuel"
| "randomBoard_draw (Suc fuel) placements n final_set r =
     bind_res (randint n r) (\<lambda>(i, r).
     bind_res (list_getitem placements i) (\<lambda>ship_coords.
       if isdisjoint ship_coords final_set then Returns (ship_coords, r)
       else randomBoard_draw fuel placements n final_set r))"

fun randomBoard_loop ::
  "nat \<Rightarrow> 'c game \<Rightarrow> name list \<Rightarrow> cell fset \<Rightarrow> (name \<times> cell fset) list \<Rightarrow> rnd
     \<Rightarrow> (cell fset \<times> (name \<times> cell fset) list \<times> rnd) res" where
  "randomBoard_loop fuel s [] final_set bts r = Returns (final_set, bts, r)"
| "randomBoard_loop fuel s (name # ns) final_set bts r =
     bind_res (getitem (possibleShipsDict s) name) (\<lambda>placements.
     bind_res (getitem (possibleShipsNumDict s) name) (\<lambda>n.
     bind_res (randomBoard_draw fuel placements n final_set r) (\<lambda>(ship_coords, r).
       randomBoard_loop fuel s ns (final_set |\<union>| ship_coords)
         (bts @ [(name, ship_coords)]) r)))"

definition randomBoard :: "nat \<Rightarrow> 'c game \<Rightarrow> rnd \<Rightarrow> (cell fset \<times> 'c game \<times> rnd) res" where
  "randomBoard fuel s r =
     bind_res (randint (numPerms s) r) (\<lambda>(i, r).
     bind_res (getitem (randomOrderDict s) i) (\<lambda>order.
     bind_res (randomBoard_loop fuel s order {||} [] r) (\<lambda>(final_set, bts, r).
       Returns (final_set, s\<lparr>boats := bts\<rparr>, r))))"

subsection \<open>Bayesian variant: class BattleshipPlayer\<close>

definition BattleshipPlayer_init ::
  "nat \<Rightarrow> int \<Rightarrow> int list \<Rightarrow> bool \<Rightarrow> int \<Rightarrow> bool \<Rightarrow> rnd \<Rightarrow> (entry list game \<times> rnd) res" where
  "BattleshipPlayer_init fuel d shs rndOrder batch ptime r =
     bind_res (Battleship_init d shs) (\<lambda>s.
     bind_res (randomBoard fuel s r) (\<lambda>(b, s, r).
       Returns
         (s\<lparr>board := b, hits := {||}, hitsSunk := {||}, misses := {||},
            possibleShipsDictCond := map (\<lambda>(k, v). (k, map Config v)) (possibleShipsDict s),
            possibleShipsNumDictCond := possibleShipsNumDict s,
            lastTurnBoards := [], nextInx := (- 1, - 1), randomOrder := rndOrder,
            batchSize := batch, printTime := ptime, numMaxHits := sum_list (ships s),
            order := map snd (sort (zip shs (names s)))\<rparr>, r)))"

definition guess :: "'c game \<Rightarrow> cell \<Rightarrow> 'c game" where
  "guess s guessInx =
     (let s = s\<lparr>nextInx := guessInx\<rparr>
      in if guessInx |\<in>| board s then s\<lparr>hits := finsert guessInx (hits s)\<rparr>
         else s\<lparr>misses := finsert guessInx (misses s)\<rparr>)"

text \<open>Calling a set method on every element of a candidate list: an element that is
  a tuple has no such method, and Python raises \<open>AttributeError\<close>.\<close>

fun as_sets :: "entry list \<Rightarrow> cell fset list res" where
  "as_sets [] = Returns []"
| "as_sets (Config c # es) = bind_res (as_sets es) (\<lambda>cs. Returns (c # cs))"
| "as_sets (Coord x # es) = Raises AttributeError"

text \<open>\<^verbatim>\<open>hit in k\<close> for an element \<open>k\<close> of a candidate list: a tuple of two integers never
  holds a cell.\<close>

fun hit_in :: "cell \<Rightarrow> entry \<Rightarrow> bool" where
  "hit_in hit (Config c) = (hit |\<in>| c)"
| "hit_in hit (Coord x) = False"

text \<open>\<^verbatim>\<open>hit in set().union(*locations)\<close>: a tuple among the locations adds its two
  integers to the union, never a cell.\<close>

definition hit_in_union :: "cell \<Rightarrow> entry list \<Rightarrow> bool" where
  "hit_in_union hit locations = list_ex (hit_in hit) locations"

text \<open>First loop of \<^verbatim>\<open>updateOrientations\<close>: sink detection.\<close>

fun updateOrientations_boats ::
  "(name \<times> cell fset) list \<Rightarrow> entry list game \<Rightarrow> entry list game" where
  "updateOrientations_boats [] s = s"
| "updateOrientations_boats ((boat, location) # bs) s =
     updateOrientations_boats bs
       (if location |\<subseteq>| hits s
        then s\<lparr>hitsSunk := hitsSunk s |\<union>| location,
               sunkDict := AList.update boat 1 (sunkDict s),
               possibleShipsDictCond :=
                 AList.update boat (map Coord (sorted_list_of_fset location))
                   (possibleShipsDictCond s),
               possibleShipsNumDictCond := AList.update boat 1 (possibleShipsNumDictCond s)\<rparr>
        else s)"

text \<open>Second loop: candidate pruning.\<close>

fun updateOrientations_names :: "name list \<Rightarrow> entry list game \<Rightarrow> entry list game res" where
  "updateOrientations_names [] s = Returns s"
| "updateOrientations_names (name # ns) s =
     bind_res (getitem (sunkDict s) name) (\<lambda>sunk.
       if 1 - sunk \<noteq> 0
       then bind_res (getitem (possibleShipsDictCond s) name) (\<lambda>cands.
            bind_res (as_sets cands) (\<lambda>configs.
              let new_orient =
                    filter (\<lambda>config. isdisjoint (misses s) config
                                     \<and> isdisjoint config (hitsSunk s)) configs
              in updateOrientations_names ns
                   (s\<lparr>possibleShipsDictCond :=
                        AList.update name (map Config new_orient) (possibleShipsDictCond s),
                      possibleShipsNumDictCond :=
                        AList.update name (length new_orient) (possibleShipsNumDictCond s)\<rparr>)))
       else updateOrientations_names ns s)"

text \<open>Third loop: a hit that the candidates of one ship only can cover.\<close>

fun updateOrientations_hits :: "cell list \<Rightarrow> entry list game \<Rightarrow> entry list game res" where
  "updateOrientations_hits [] s = Returns s"
| "updateOrientations_hits (hit # hs) s =
     (let temp = map fst (filter (\<lambda>(name, locations). hit_in_union hit locations)
                            (possibleShipsDictCond s))
      in if length temp = 1
         then bind_res (getitem (possibleShipsDictCond s) (temp ! 0)) (\<lambda>cands.
                let new_cands = filter (hit_in hit) cands
                in updateOrientations_hits hs
                     (s\<lparr>possibleShipsDictCond :=
                          AList.update (temp ! 0) new_cands (possibleShipsDictCond s),
                        possibleShipsNumDictCond :=
                          AList.update (temp ! 0) (length new_cands)
                            (possibleShipsNumDictCond s)\<rparr>))
         else updateOrientations_hits hs s)"

definition updateOrientations :: "entry list game \<Rightarrow> entry list game res" where
  "updateOrientations s =
     bind_res (updateOrientations_names (names s) (updateOrientations_boats (boats s) s)) (\<lambda>s.
     bind_res (updateOrientations_hits (sorted_list_of_fset (hits s)) s) (\<lambda>s.
       Returns (s\<lparr>order := map fst (sort_key snd (possibleShipsNumDictCond s))\<rparr>)))"

text \<open>\<^verbatim>\<open>randomSelection\<close>, the \<^verbatim>\<open>for i in order\<close> loop: \<open>None\<close> is the early
  \<^verbatim>\<open>return set()\<close>.\<close>

fun randomSelection_greedy ::
  "entry list game \<Rightarrow> name list \<Rightarrow> (name, cell fset) dict \<Rightarrow> cell fset \<Rightarrow> rnd
     \<Rightarrow> (((name, cell fset) dict \<times> cell fset) option \<times> rnd) res" where
  "randomSelection_greedy s [] what_where final_set r = Returns (Some (what_where, final_set), r)"
| "randomSelection_greedy s (i # is) what_where final_set r =
     bind_res (getitem (possibleShipsDictCond s) i) (\<lambda>cands.
     bind_res (as_sets cands) (\<lambda>configs.
       let alternatives = filter (\<lambda>k. isdisjoint k final_set) configs
       in if alternatives = [] then Returns (None, r)
          else bind_res (choice alternatives r) (\<lambda>(ship_coords, r).
                 randomSelection_greedy s is (AList.update i ship_coords what_where)
                   (final_set |\<union>| ship_coords) r)))"

text \<open>One pass of \<^verbatim>\<open>for entry in what_where.items()\<close>: \<open>Inl\<close> is the early
  \<^verbatim>\<open>return list(final_set)\<close>.\<close>

fun randomSelection_entries ::
  "entry list game \<Rightarrow> name list \<Rightarrow> (name, cell fset) dict \<Rightarrow> cell fset \<Rightarrow> rnd
     \<Rightarrow> ((cell list + (name, cell fset) dict \<times> cell fset) \<times> rnd) res" where
  "randomSelection_entries s [] what_where final_set r = Returns (Inr (what_where, final_set), r)"
| "randomSelection_entries s (key # keys) what_where final_set r =
     bind_res (getitem what_where key) (\<lambda>coords.
       let needed = hits s |-| final_set;
           num_intersected_already = fcard (coords |\<inter>| hits s)
       in if key \<noteq> ''other''
          then bind_res (getitem (shipLengths s) key) (\<lambda>L.
                 if int num_intersected_already < L
                 then let temp = union_all (map snd (filter (\<lambda>k. fst k \<noteq> key) what_where))
                      in bind_res (getitem (possibleShipsDictCond s) key) (\<lambda>cands.
                         bind_res (as_sets cands) (\<lambda>configs.
                           let alternatives =
                                 filter (\<lambda>k. isdisjoint k temp
                                           \<and> num_intersected_already < fcard (needed |\<inter>| k))
                                   configs
                           in if alternatives = []
                              then randomSelection_entries s keys what_where final_set r
                              else bind_res (choice alternatives r) (\<lambda>(ship_coords, r).
                                     let what_where = AList.update key ship_coords what_where;
                                         final_set = union_all (map snd what_where)
                                     in if hits s |\<subseteq>| final_set
                                        then Returns (Inl (sorted_list_of_fset final_set), r)
                                        else randomSelection_entries s keys what_where
                                               final_set r)))
                 else randomSelection_entries s keys what_where final_set r)
          else randomSelection_entries s keys what_where final_set r)"

text \<open>\<^verbatim>\<open>while count < 3\<close>.\<close>

fun randomSelection_rounds ::
  "nat \<Rightarrow> entry list game \<Rightarrow> (name, cell fset) dict \<Rightarrow> cell fset \<Rightarrow> rnd
     \<Rightarrow> ((cell list + (name, cell fset) dict \<times> cell fset) \<times> rnd) res" where
  "randomSelection_rounds 0 s what_where final_set r = Returns (Inr (what_where, final_set), r)"
| "randomSelection_rounds (Suc count) s what_where final_set r =
     bind_res (randomSelection_entries s (map fst what_where) what_where final_set r) (\<lambda>(x, r).
       case x of
         Inl cells \<Rightarrow> Returns (Inl cells, r)
       | Inr (what_where, final_set) \<Rightarrow> randomSelection_rounds count s what_where final_set r)"

text \<open>The \<^verbatim>\<open>while 1\<close> loop. \<^verbatim>\<open>random.shuffle(order)\<close> shuffles the caller's list, so the
  order is returned with the sample.\<close>

fun randomSelection_loop ::
  "nat \<Rightarrow> entry list game \<Rightarrow> name list \<Rightarrow> cell fset \<Rightarrow> (name, cell fset) dict \<Rightarrow> rnd
     \<Rightarrow> (sample \<times> name list \<times> rnd) res" where
  "randomSelection_loop 0 s ordr mustHappen what_where r = OutOfFuel"
| "randomSelection_loop (Suc fuel) s ordr mustHappen what_where r =
     bind_res (randomSelection_greedy s ordr what_where mustHappen r) (\<lambda>(g, r).
       case g of
         None \<Rightarrow> Returns (EmptySet, ordr, r)
       | Some (what_where, final_set) \<Rightarrow>
           if hits s |\<subseteq>| final_set
           then Returns (CellList (sorted_list_of_fset final_set), ordr, r)
           else bind_res (randomSelection_rounds 3 s
                            (AList.update ''other'' mustHappen what_where) final_set r)
                  (\<lambda>(x, r).
                     case x of
                       Inl cells \<Rightarrow> Returns (CellList cells, ordr, r)
                     | Inr (what_where, final_set) \<Rightarrow>
                         (let (ordr, r) = shuffle ordr r
                          in randomSelection_loop fuel s ordr mustHappen what_where r)))"

definition randomSelection ::
  "nat \<Rightarrow> entry list game \<Rightarrow> name list \<Rightarrow> cell fset \<Rightarrow> rnd \<Rightarrow> (sample \<times> name list \<times> rnd) res" where
  "randomSelection fuel s ordr mustHappen r = randomSelection_loop fuel s ordr mustHappen [] r"

text \<open>\<^verbatim>\<open>randomConditionalBoard\<close>, the loop over \<^verbatim>\<open>self.sunkDict.items()\<close>;
  \<^verbatim>\<open>order.remove\<close> raises \<open>ValueError\<close> when the name is not in the list.\<close>

fun randomConditionalBoard_sunk ::
  "(name \<times> int) list \<Rightarrow> 'c game \<Rightarrow> name list \<Rightarrow> cell fset \<Rightarrow> (name list \<times> cell fset) res" where
  "randomConditionalBoard_sunk [] s ordr mustHappen = Returns (ordr, mustHappen)"
| "randomConditionalBoard_sunk (i # items) s ordr mustHappen =
     (if snd i \<noteq> 0
      then if fst i \<in> set ordr
           then bind_res (getitem (dict_of (boats s)) (fst i)) (\<lambda>location.
                  randomConditionalBoard_sunk items s (remove1 (fst i) ordr)
                    (mustHappen |\<union>| location))
           else Raises ValueError
      else randomConditionalBoard_sunk items s ordr mustHappen)"

fun randomConditionalBoard_loop ::
  "nat \<Rightarrow> entry list game \<Rightarrow> name list \<Rightarrow> cell fset \<Rightarrow> rnd \<Rightarrow> (cell list \<times> rnd) res" where
  "randomConditionalBoard_loop 0 s ordr mustHappen r = OutOfFuel"
| "randomConditionalBoard_loop (Suc fuel) s ordr mustHappen r =
     bind_res (randomSelection (Suc fuel) s ordr mustHappen r) (\<lambda>(final_set, ordr, r).
       let (ordr, r) = (if randomOrder s then shuffle ordr r else (ordr, r))
       in case final_set of
            EmptySet \<Rightarrow> randomConditionalBoard_loop fuel s ordr mustHappen r
          | CellList cells \<Rightarrow>
              if length cells = 0 then randomConditionalBoard_loop fuel s ordr mustHappen r
              else Returns (cells, r))"

definition randomConditionalBoard ::
  "nat \<Rightarrow> entry list game \<Rightarrow> name list \<Rightarrow> rnd \<Rightarrow> (cell list \<times> rnd) res" where
  "randomConditionalBoard fuel s orderIncoming r =
     bind_res (randomConditionalBoard_sunk (sunkDict s) s orderIncoming {||})
       (\<lambda>(ordr, mustHappen). randomConditionalBoard_loop fuel s ordr mustHappen r)"

text \<open>\<^verbatim>\<open>buildAggBoard\<close>: the boards of the last turn that are kept, with the list of
  their cells (\<open>lboards\<close> and \<open>boards\<close> before the sampling loop).\<close>

definition buildAggBoard_reuse :: "'c game \<Rightarrow> cell fset list \<times> cell list" where
  "buildAggBoard_reuse s =
     (let (lboards, boards) = ([], []);
          (lboards, boards) =
            (if nextInx s |\<in>| hits s
             then let lboards = filter (\<lambda>i. nextInx s |\<in>| i) (lastTurnBoards s)
                  in (lboards,
                      concat (map (\<lambda>i. filter (\<lambda>j. nextInx s |\<in>| i) (sorted_list_of_fset i))
                                lboards))
             else (lboards, boards));
          (lboards, boards) =
            (if nextInx s |\<in>| misses s
             then let lboards = filter (\<lambda>i. nextInx s |\<notin>| i) (lastTurnBoards s)
                  in (lboards,
                      concat (map (\<lambda>i. filter (\<lambda>j. nextInx s |\<notin>| i) (sorted_list_of_fset i))
                                lboards))
             else (lboards, boards))
      in (lboards, boards))"

text \<open>\<^verbatim>\<open>while numIter < self.batchSize\<close>: \<open>k\<close> counts the rounds that remain,
  \<open>batchSize - numIter\<close>.\<close>

fun buildAggBoard_loop ::
  "nat \<Rightarrow> nat \<Rightarrow> entry list game \<Rightarrow> name list \<Rightarrow> nat \<Rightarrow> cell list \<Rightarrow> cell fset list \<Rightarrow> rnd
     \<Rightarrow> (name list \<times> nat \<times> cell list \<times> cell fset list \<times> rnd) res" where
  "buildAggBoard_loop fuel 0 s ordr numIt boards lboards r =
     Returns (ordr, numIt, boards, lboards, r)"
| "buildAggBoard_loop fuel (Suc k) s ordr numIt boards lboards r =
     (let (ordr, r) = (if randomOrder s then shuffle ordr r else (ordr, r));
          numIt = numIt + 1
      in bind_res (randomConditionalBoard fuel s ordr r) (\<lambda>(temp, r).
           buildAggBoard_loop fuel k s ordr numIt (boards @ temp)
             (lboards @ [fset_of_list temp]) r))"

text \<open>With \<open>randomOrder\<close> the local \<open>order\<close> is the list stored in \<open>randomOrderDict\<close>, and
  the shuffles of the loop are shuffles of that entry: it is written back.\<close>

definition buildAggBoard :: "nat \<Rightarrow> entry list game \<Rightarrow> rnd \<Rightarrow> (entry list game \<times> rnd) res" where
  "buildAggBoard fuel s r =
     bind_res
       (if \<not> randomOrder s
        then Returns (None, map fst (sort_key snd (possibleShipsNumDictCond s)), r)
        else bind_res (randint (numPerms s) r) (\<lambda>(i, r).
             bind_res (getitem (randomOrderDict s) i) (\<lambda>ordr. Returns (Some i, ordr, r))))
       (\<lambda>(key, ordr, r).
     bind_res (updateOrientations s) (\<lambda>s.
       let (lboards, boards) = buildAggBoard_reuse s
       in bind_res (buildAggBoard_loop fuel (nat (batchSize s - int (length lboards))) s ordr
                      (length lboards) boards lboards r)
            (\<lambda>(ordr, numIt, boards, lboards, r).
               Returns
                 (s\<lparr>randomOrderDict :=
                      (case key of None \<Rightarrow> randomOrderDict s
                       | Some i \<Rightarrow> AList.update i ordr (randomOrderDict s)),
                    lastTurnBoards := lboards,
                    aggDict := dict_of (most_common (counter boards)),
                    numIter := numIt\<rparr>, r))))"

definition refreshGame :: "nat \<Rightarrow> entry list game \<Rightarrow> rnd \<Rightarrow> (entry list game \<times> rnd) res" where
  "refreshGame fuel s r =
     bind_res (randomBoard fuel s r) (\<lambda>(b, s, r).
       Returns
         (s\<lparr>board := b, hits := {||}, misses := {||}, hitsSunk := {||},
            sunkDict := dict_of (zip (names s) (map (\<lambda>i. 0) (ships s))),
            possibleShipsDictCond := map (\<lambda>(k, v). (k, map Config v)) (possibleShipsDict s),
            possibleShipsNumDictCond := possibleShipsNumDict s,
            lastTurnBoards := [], nextInx := (- 1, - 1)\<rparr>, r))"

subsection \<open>Bayesian variant: class BattleshipAutoplay\<close>

text \<open>\<^verbatim>\<open>for i in self.hits: del self.aggDict[i]\<close>.\<close>

fun play_del :: "cell list \<Rightarrow> (cell, nat) dict \<Rightarrow> (cell, nat) dict res" where
  "play_del [] d = Returns d"
| "play_del (i # hs) d = bind_res (delitem d i) (play_del hs)"

text \<open>One turn: the body of \<^verbatim>\<open>while True\<close> after the test for the end of the game.\<close>

definition play_turn :: "nat \<Rightarrow> entry list game \<Rightarrow> rnd \<Rightarrow> (entry list game \<times> rnd) res" where
  "play_turn fuel s r =
     bind_res (buildAggBoard fuel s r) (\<lambda>(s, r).
     bind_res (play_del (sorted_list_of_fset (hits s)) (aggDict s)) (\<lambda>d.
     bind_res (max_key d) (\<lambda>c.
       let s = s\<lparr>aggDict := d, nextInx := c\<rparr>
       in Returns
            (if nextInx s |\<in>| board s then s\<lparr>hits := finsert (nextInx s) (hits s)\<rparr>
             else s\<lparr>misses := finsert (nextInx s) (misses s)\<rparr>, r))))"

fun play :: "nat \<Rightarrow> bool \<Rightarrow> entry list game \<Rightarrow> rnd \<Rightarrow> (int \<times> entry list game \<times> rnd) res" where
  "play 0 refresh s r = OutOfFuel"
| "play (Suc fuel) refresh s r =
     (if int (fcard (hits s)) = numMaxHits s
      then let n = int (fcard (hits s)) + int (fcard (misses s))
           in if refresh
              then bind_res (refreshGame (Suc fuel) s r) (\<lambda>(s, r). Returns (n, s, r))
              else Returns (n, s, r)
      else bind_res (play_turn (Suc fuel) s r) (\<lambda>(s, r). play fuel refresh s r))"

subsection \<open>Statistics variant: class Battleship\<close>

definition orientations_S :: "int \<Rightarrow> int \<Rightarrow> cell fset list" where
  "orientations_S d L =
     concat (map (\<lambda>i. concat (map (\<lambda>j.
                   [fset_of_list (map (\<lambda>temp. (i + temp, j)) (py_range L)),
                    fset_of_list (map (\<lambda>temp. (j, i + temp)) (py_range L))])
                 (py_range d)))
               (py_range (d - L + 1)))"

fun generateComponentLayouts_loop_S :: "name list \<Rightarrow> 'c game \<Rightarrow> 'c game res" where
  "generateComponentLayouts_loop_S [] s = Returns s"
| "generateComponentLayouts_loop_S (name # ns) s =
     bind_res (getitem (shipLengths s) name) (\<lambda>L.
       let orientations = orientations_S (dim s) L
       in generateComponentLayouts_loop_S ns
            (s\<lparr>possibleShipsDict := AList.update name orientations (possibleShipsDict s),
               possibleShipsNumDict :=
                 AList.update name (length orientations) (possibleShipsNumDict s)\<rparr>))"

definition generateComponentLayouts_S :: "'c game \<Rightarrow> 'c game res" where
  "generateComponentLayouts_S s =
     generateComponentLayouts_loop_S (sorted_list_of_fset (fset_of_list (names s)))
       (s\<lparr>possibleShipsDict := [], possibleShipsNumDict := []\<rparr>)"

definition Battleship_init_S :: "int \<Rightarrow> int list \<Rightarrow> 'c game res" where
  "Battleship_init_S d shs =
     (let nms = map (\<lambda>c. [c]) (take (length shs) ascii_lowercase);
          s = new_object\<lparr>dim := d, numShips := length shs, ships := shs, names := nms,
                sunkDict := dict_of (zip nms (map (\<lambda>i. 0) shs)),
                shipLengths := dict_of (zip nms shs)\<rparr>
      in bind_res (generateComponentLayouts_S s) (\<lambda>s.
           Returns (s\<lparr>order := map snd (sort (zip shs (names s)))\<rparr>)))"

fun randomBoard_draw_S ::
  "nat \<Rightarrow> cell fset list \<Rightarrow> nat \<Rightarrow> cell fset \<Rightarrow> rnd \<Rightarrow> (cell fset \<times> rnd) res" where
  "randomBoard_draw_S 0 placements n final_set r = OutOfFuel"
| "randomBoard_draw_S (Suc fuel) placements n final_set r =
     bind_res (randint n r) (\<lambda>(i, r).
     bind_res (list_getitem placements i) (\<lambda>ship_coords.
       if fcard final_set + fcard ship_coords = fcard (final_set |\<union>| ship_coords)
       then Returns (ship_coords, r)
       else randomBoard_draw_S fuel placements n final_set r))"

fun randomBoard_loop_S ::
  "nat \<Rightarrow> 'c game \<Rightarrow> name list \<Rightarrow> cell fset \<Rightarrow> (name \<times> cell fset) list \<Rightarrow> rnd
     \<Rightarrow> (cell fset \<times> (name \<times> cell fset) list \<times> rnd) res" where
  "randomBoard_loop_S fuel s [] final_set bts r = Returns (final_set, bts, r)"
| "randomBoard_loop_S fuel s (name # ns) final_set bts r =
     bind_res (getitem (possibleShipsDict s) name) (\<lambda>placements.
     bind_res (getitem (possibleShipsNumDict s) name) (\<lambda>n.
     bind_res (randomBoard_draw_S fuel placements n final_set r) (\<lambda>(ship_coords, r).
       randomBoard_loop_S fuel s ns (final_set |\<union>| ship_coords)
         (bts @ [(name, ship_coords)]) r)))"

definition randomBoard_S :: "nat \<Rightarrow> 'c game \<Rightarrow> rnd \<Rightarrow> (cell fset \<times> 'c game \<times> rnd) res" where
  "randomBoard_S fuel s r =
     bind_res (randomBoard_loop_S fuel s (order s) {||} [] r) (\<lambda>(final_set, bts, r).
       Returns (final_set, s\<lparr>boats := bts\<rparr>, r))"

subsection \<open>Statistics variant: class BattleshipEnv\<close>

definition BattleshipEnv_init ::
  "nat \<Rightarrow> int \<Rightarrow> int list \<Rightarrow> real \<Rightarrow> rnd \<Rightarrow> (cell fset list game \<times> rnd) res" where
  "BattleshipEnv_init fuel d shs lg r =
     bind_res (Battleship_init_S d shs) (\<lambda>s.
     bind_res (randomBoard_S fuel s r) (\<lambda>(b, s, r).
       Returns
         (s\<lparr>board := b, lag := lg, hits := {||}, hitsSunk := {||}, misses := {||},
            possibleShipsDictCond := possibleShipsDict s,
            possibleShipsNumDictCond := possibleShipsNumDict s\<rparr>, r)))"

fun updateOrientations_boats_S ::
  "(name \<times> cell fset) list \<Rightarrow> cell fset list game \<Rightarrow> cell fset list game" where
  "updateOrientations_boats_S [] s = s"
| "updateOrientations_boats_S ((boat, location) # bs) s =
     updateOrientations_boats_S bs
       (if fcard (location |\<union>| hits s) = fcard (hits s)
        then s\<lparr>hitsSunk := hitsSunk s |\<union>| location,
               sunkDict := AList.update boat 1 (sunkDict s),
               possibleShipsDictCond := AList.update boat [location] (possibleShipsDictCond s),
               possibleShipsNumDictCond := AList.update boat 1 (possibleShipsNumDictCond s)\<rparr>
        else s)"

fun updateOrientations_names_S ::
  "name list \<Rightarrow> nat \<Rightarrow> cell fset list game \<Rightarrow> cell fset list game res" where
  "updateOrientations_names_S [] sunkNum s = Returns s"
| "updateOrientations_names_S (name # ns) sunkNum s =
     bind_res (getitem (sunkDict s) name) (\<lambda>sunk.
       if sunk \<noteq> 1
       then bind_res (getitem (possibleShipsDictCond s) name) (\<lambda>orientations.
            bind_res (getitem (shipLengths s) name) (\<lambda>L.
              let new_orient =
                    filter (\<lambda>config.
                              int (fcard (misses s |\<union>| config)) = int (fcard (misses s)) + L
                            \<and> int (fcard (config |\<union>| hitsSunk s)) = L + int sunkNum)
                      orientations
              in updateOrientations_names_S ns sunkNum
                   (s\<lparr>possibleShipsDictCond :=
                        AList.update name new_orient (possibleShipsDictCond s),
                      possibleShipsNumDictCond :=
                        AList.update name (length new_orient) (possibleShipsNumDictCond s)\<rparr>)))
       else updateOrientations_names_S ns sunkNum s)"

definition updateOrientations_S :: "cell fset list game \<Rightarrow> cell fset list game res" where
  "updateOrientations_S s =
     (let s = updateOrientations_boats_S (boats s) s;
          sunkNum = fcard (hitsSunk s)
      in updateOrientations_names_S (sorted_list_of_fset (fset_of_list (names s))) sunkNum s)"

definition guess_S :: "'c game \<Rightarrow> cell \<Rightarrow> 'c game" where
  "guess_S s guessInx =
     (if guessInx |\<in>| board s then s\<lparr>hits := hits s |\<union>| {|guessInx|}\<rparr>
      else s\<lparr>misses := misses s |\<union>| {|guessInx|}\<rparr>)"

text \<open>\<^verbatim>\<open>randomSelection\<close>, the inner \<^verbatim>\<open>while 1\<close>: draw a candidate until one is
  disjoint from the cells committed so far; after a draw that is not, the clock is asked,
  and \<open>None\<close> is the \<^verbatim>\<open>return set()\<close> of an exhausted budget.\<close>

fun randomSelection_draw_S ::
  "nat \<Rightarrow> cell fset list \<Rightarrow> nat \<Rightarrow> cell fset \<Rightarrow> rnd \<Rightarrow> clock
     \<Rightarrow> (cell fset option \<times> rnd \<times> clock) res" where
  "randomSelection_draw_S 0 placements n final_set r c = OutOfFuel"
| "randomSelection_draw_S (Suc fuel) placements n final_set r c =
     bind_res (randint n r) (\<lambda>(i, r).
     bind_res (list_getitem placements i) (\<lambda>ship_coords.
       if fcard final_set + fcard ship_coords = fcard (final_set |\<union>| ship_coords)
       then Returns (Some ship_coords, r, c)
       else if c 0 then Returns (None, r, cnext c)
       else randomSelection_draw_S fuel placements n final_set r (cnext c)))"

fun randomSelection_ships_S ::
  "nat \<Rightarrow> cell fset list game \<Rightarrow> name list \<Rightarrow> cell fset \<Rightarrow> rnd \<Rightarrow> clock
     \<Rightarrow> (cell fset option \<times> rnd \<times> clock) res" where
  "randomSelection_ships_S fuel s [] final_set r c = Returns (Some final_set, r, c)"
| "randomSelection_ships_S fuel s (i # is) final_set r c =
     bind_res (getitem (possibleShipsDictCond s) i) (\<lambda>placements.
     bind_res (getitem (possibleShipsNumDictCond s) i) (\<lambda>n.
     bind_res (randomSelection_draw_S fuel placements n final_set r c) (\<lambda>(x, r, c).
       case x of
         None \<Rightarrow> Returns (None, r, c)
       | Some ship_coords \<Rightarrow>
           randomSelection_ships_S fuel s is (final_set |\<union>| ship_coords) r c)))"

fun randomSelection_S ::
  "nat \<Rightarrow> cell fset list game \<Rightarrow> name list \<Rightarrow> cell fset \<Rightarrow> rnd \<Rightarrow> clock
     \<Rightarrow> (sample \<times> rnd \<times> clock) res" where
  "randomSelection_S 0 s ordr mustHappen r c = OutOfFuel"
| "randomSelection_S (Suc fuel) s ordr mustHappen r c =
     bind_res (randomSelection_ships_S (Suc fuel) s ordr mustHappen r c) (\<lambda>(x, r, c).
       case x of
         None \<Rightarrow> Returns (EmptySet, r, c)
       | Some final_set \<Rightarrow>
           if int (fcard (final_set |-| hits s)) = int (fcard final_set) - int (fcard (hits s))
           then Returns (CellList (sorted_list_of_fset final_set), r, c)
           else randomSelection_S fuel s ordr mustHappen r c)"

fun randomConditionalBoard_loop_S ::
  "nat \<Rightarrow> cell fset list game \<Rightarrow> name list \<Rightarrow> cell fset \<Rightarrow> rnd \<Rightarrow> clock
     \<Rightarrow> (cell list \<times> rnd \<times> clock) res" where
  "randomConditionalBoard_loop_S 0 s ordr mustHappen r c = OutOfFuel"
| "randomConditionalBoard_loop_S (Suc fuel) s ordr mustHappen r c =
     bind_res (randomSelection_S (Suc fuel) s ordr mustHappen r c) (\<lambda>(final_set, r, c).
       case final_set of
         EmptySet \<Rightarrow> randomConditionalBoard_loop_S fuel s ordr mustHappen r c
       | CellList cells \<Rightarrow>
           if length cells = 0 then randomConditionalBoard_loop_S fuel s ordr mustHappen r c
           else Returns (cells, r, c))"

definition randomConditionalBoard_S ::
  "nat \<Rightarrow> cell fset list game \<Rightarrow> name list \<Rightarrow> rnd \<Rightarrow> clock \<Rightarrow> (cell list \<times> rnd \<times> clock) res" where
  "randomConditionalBoard_S fuel s orderIncoming r c =
     bind_res (randomConditionalBoard_sunk (sunkDict s) s orderIncoming {||})
       (\<lambda>(ordr, mustHappen). randomConditionalBoard_loop_S fuel s ordr mustHappen r c)"

text \<open>\<^verbatim>\<open>while time() - start_time < self.lag\<close>: the clock answers whether the budget of
  the turn has run out.\<close>

fun buildAggBoard_loop_S ::
  "nat \<Rightarrow> cell fset list game \<Rightarrow> name list \<Rightarrow> nat \<Rightarrow> cell list \<Rightarrow> rnd \<Rightarrow> clock
     \<Rightarrow> (nat \<times> cell list \<times> rnd \<times> clock) res" where
  "buildAggBoard_loop_S 0 s ordr numIt boards r c = OutOfFuel"
| "buildAggBoard_loop_S (Suc fuel) s ordr numIt boards r c =
     (if c 0 then Returns (numIt, boards, r, cnext c)
      else bind_res (randomConditionalBoard_S (Suc fuel) s ordr r (cnext c)) (\<lambda>(temp, r, c).
             buildAggBoard_loop_S fuel s ordr (numIt + 1) (boards @ temp) r c))"

definition buildAggBoard_S ::
  "nat \<Rightarrow> cell fset list game \<Rightarrow> rnd \<Rightarrow> clock \<Rightarrow> (cell fset list game \<times> rnd \<times> clock) res" where
  "buildAggBoard_S fuel s r c =
     (let ordr = map fst (sort_key snd (possibleShipsNumDictCond s))
      in bind_res (updateOrientations_S s) (\<lambda>s.
         bind_res (buildAggBoard_loop_S fuel s ordr 0 [] r c) (\<lambda>(numIt, boards, r, c).
           Returns
             (s\<lparr>aggDict := dict_of (take (nat (dim s ^ 2)) (most_common (counter boards))),
                numIter := numIt\<rparr>, r, c))))"

definition refreshGame_S ::
  "nat \<Rightarrow> cell fset list game \<Rightarrow> rnd \<Rightarrow> (cell fset list game \<times> rnd) res" where
  "refreshGame_S fuel s r =
     bind_res (randomBoard_S fuel s r) (\<lambda>(b, s, r).
       Returns
         (s\<lparr>board := b, hits := {||}, misses := {||},
            sunkDict := dict_of (zip (names s) (map (\<lambda>i. 0) (ships s))),
            hitsSunk := {||},
            possibleShipsDictCond := possibleShipsDict s,
            possibleShipsNumDictCond := possibleShipsNumDict s\<rparr>, r))"

subsection \<open>Statistics variant: class BattleshipAutoplay\<close>

definition play_turn_S ::
  "nat \<Rightarrow> cell fset list game \<Rightarrow> rnd \<Rightarrow> clock \<Rightarrow> (cell fset list game \<times> rnd \<times> clock) res" where
  "play_turn_S fuel s r c =
     bind_res (buildAggBoard_S fuel s r c) (\<lambda>(s, r, c).
     bind_res (play_del (sorted_list_of_fset (hits s)) (aggDict s)) (\<lambda>d.
     bind_res (max_key d) (\<lambda>x.
       let s = s\<lparr>aggDict := d, nextInx := x\<rparr>
       in Returns
            (if nextInx s |\<in>| board s then s\<lparr>hits := hits s |\<union>| {|nextInx s|}\<rparr>
             else s\<lparr>misses := misses s |\<union>| {|nextInx s|}\<rparr>, r, c))))"

fun play_S ::
  "nat \<Rightarrow> bool \<Rightarrow> cell fset list game \<Rightarrow> rnd \<Rightarrow> clock
     \<Rightarrow> (int \<times> cell fset list game \<times> rnd \<times> clock) res" where
  "play_S 0 refresh s r c = OutOfFuel"
| "play_S (Suc fuel) refresh s r c =
     (if int (fcard (hits s)) = sum_list (ships s)
      then let n = int (fcard (hits s)) + int (fcard (misses s))
           in if refresh
              then bind_res (refreshGame_S (Suc fuel) s r) (\<lambda>(s, r). Returns (n, s, r, c))
              else Returns (n, s, r, c)
      else bind_res (play_turn_S (Suc fuel) s r c) (\<lambda>(s, r, c). play_S fuel refresh s r c))"

subsection \<open>Runs and example games\<close>


text \<open>The game that \<^verbatim>\<open>BattleshipAutoplay(dim=2, ships=[2], batchSize=1)\<close> builds when every
  draw is 0: one ship \<open>a\<close> of length 2 on the cells \<open>(0,0)\<close> and \<open>(1,0)\<close>.\<close>

definition game_a :: "entry list game" where
  "game_a =
     \<lparr>dim = 2, numShips = 1, ships = [2], names = [''a''], sunkDict = [(''a'', 0)],
      shipLengths = [(''a'', 2)],
      possibleShipsDict =
        [(''a'', [{|(0, 0), (1, 0)|}, {|(0, 1), (1, 1)|}, {|(0, 0), (0, 1)|}, {|(1, 0), (1, 1)|}])],
      possibleShipsNumDict = [(''a'', 4)], numPerms = 1, randomOrderDict = [(0, [''a''])],
      boats = [(''a'', {|(0, 0), (1, 0)|})], board = {|(0, 0), (1, 0)|},
      hits = {||}, hitsSunk = {||}, misses = {||},
      possibleShipsDictCond =
        [(''a'', [Config {|(0, 0), (1, 0)|}, Config {|(0, 1), (1, 1)|},
                  Config {|(0, 0), (0, 1)|}, Config {|(1, 0), (1, 1)|}])],
      possibleShipsNumDictCond = [(''a'', 4)], lastTurnBoards = [],
      nextInx = (- 1, - 1), randomOrder = False, batchSize = 1, printTime = False,
      numMaxHits = 2, lag = 0, order = [''a''], aggDict = [], numIter = 0\<rparr>"

text \<open>The game that \<^verbatim>\<open>BattleshipAutoplay(dim=2, ships=[2], lag=2)\<close> of the Statistics variant
  builds when every draw is 0.\<close>

definition game_a_S :: "cell fset list game" where
  "game_a_S =
     \<lparr>dim = 2, numShips = 1, ships = [2], names = [''a''], sunkDict = [(''a'', 0)],
      shipLengths = [(''a'', 2)],
      possibleShipsDict =
        [(''a'', [{|(0, 0), (1, 0)|}, {|(0, 0), (0, 1)|}, {|(0, 1), (1, 1)|}, {|(1, 0), (1, 1)|}])],
      possibleShipsNumDict = [(''a'', 4)], numPerms = 0, randomOrderDict = [],
      boats = [(''a'', {|(0, 0), (1, 0)|})], board = {|(0, 0), (1, 0)|},
      hits = {||}, hitsSunk = {||}, misses = {||},
      possibleShipsDictCond =
        [(''a'', [{|(0, 0), (1, 0)|}, {|(0, 0), (0, 1)|}, {|(0, 1), (1, 1)|}, {|(1, 0), (1, 1)|}])],
      possibleShipsNumDictCond = [(''a'', 4)], lastTurnBoards = [],
      nextInx = (0, 0), randomOrder = False, batchSize = 0, printTime = False,
      numMaxHits = 0, lag = 2, order = [''a''], aggDict = [], numIter = 0\<rparr>"

subsection \<open>Invariants of a game\<close>












text \<open>Statistics variant: the test of the second loop of \<^verbatim>\<open>updateOrientations\<close> on a
  candidate of a ship of length \<open>L\<close>, with \<open>sunkNum\<close> the size of \<open>hitsSunk\<close>.\<close>

definition survives_S :: "'c game \<Rightarrow> nat \<Rightarrow> int \<Rightarrow> cell fset \<Rightarrow> bool" where
  "survives_S s sunkNum L config \<longleftrightarrow>
     int (fcard (misses s |\<union>| config)) = int (fcard (misses s)) + L
     \<and> int (fcard (config |\<union>| hitsSunk s)) = L + int sunkNum"




text \<open>The games that autoplay reaches: a constructed game, then turns of \<^verbatim>\<open>play\<close>.\<close>

inductive autoplay :: "entry list game \<Rightarrow> bool" where
  started: "BattleshipPlayer_init fuel d shs rndOrder batch ptime r = Returns (s, r') \<Longrightarrow> autoplay s"
| turn: "autoplay s \<Longrightarrow> play_turn fuel s r = Returns (s', r') \<Longrightarrow> autoplay s'"

inductive autoplay_S :: "cell fset list game \<Rightarrow> bool" where
  started_S: "BattleshipEnv_init fuel d shs lg r = Returns (s, r') \<Longrightarrow> autoplay_S s"
| turn_S: "autoplay_S s \<Longrightarrow> play_turn_S fuel s r c = Returns (s', r', c') \<Longrightarrow> autoplay_S s'"

section \<open>Basic facts\<close>





section \<open>Recording a probe\<close>

text \<open>
  C2 (as amended). \<^verbatim>\<open>guess\<close> adds the cell to \<open>hits\<close> when the ground-truth board holds it
  and to \<open>misses\<close> otherwise. In the Statistics variant nothing else changes. In the
  Bayesian variant \<^verbatim>\<open>guess\<close> also stores the cell in \<open>nextInx\<close> (the cell probed last, which
  \<^verbatim>\<open>buildAggBoard\<close> reads to filter the boards of the last turn); no other attribute
  changes.
\<close>

theorem guess_frame:
  "guess s c =
     (if c |\<in>| board s then s\<lparr>hits := finsert c (hits s), nextInx := c\<rparr>
      else s\<lparr>misses := finsert c (misses s), nextInx := c\<rparr>)
   \<and> guess_S s c =
     (if c |\<in>| board s then s\<lparr>hits := finsert c (hits s)\<rparr>
      else s\<lparr>misses := finsert c (misses s)\<rparr>)"
  by (simp add: guess_def guess_S_def)

theorem guess_frame_witness:
  "guess game_a (0, 0) = game_a\<lparr>hits := {|(0, 0)|}, nextInx := (0, 0)\<rparr>
   \<and> guess_S game_a_S (0, 1) = game_a_S\<lparr>misses := {|(0, 1)|}\<rparr>"
  using guess_frame [of game_a "(0, 0)"] guess_frame [of game_a_S "(0, 1)"]
  by (simp add: game_a_def game_a_S_def)

text \<open>The claim as stated fails in the Bayesian variant: a hit on \<open>(0,0)\<close> changes
  \<open>nextInx\<close> from \<open>(-1,-1)\<close> to \<open>(0,0)\<close>, so the state is not the old one with \<open>hits\<close>
  updated.\<close>

theorem guess_frame_counterexample:
  "(0, 0) |\<in>| board game_a
   \<and> nextInx game_a = (- 1, - 1)
   \<and> nextInx (guess game_a (0, 0)) = (0, 0)
   \<and> guess game_a (0, 0) \<noteq> game_a\<lparr>hits := finsert (0, 0) (hits game_a)\<rparr>"
  by (simp add: guess_def game_a_def)

lemma bind_res_Raises:
  "bind_res m f = Raises e \<longleftrightarrow> m = Raises e \<or> (\<exists>x. m = Returns x \<and> f x = Raises e)"
  by (cases m) auto


lemma getitem_Some: "map_of d k = Some v \<Longrightarrow> getitem d k = Returns v"
  by (simp add: getitem_def)

lemma getitem_None: "map_of d k = None \<Longrightarrow> getitem d k = Raises KeyError"
  by (simp add: getitem_def)

lemma foldl_update_append:
  "distinct (map fst (acc @ ps)) \<Longrightarrow>
   foldl (\<lambda>d (k, v). AList.update k v d) acc ps = acc @ ps"
proof (induction ps arbitrary: acc)
  case Nil
  then show ?case by simp
next
  case (Cons p ps)
  obtain k v where p: "p = (k, v)" by (cases p)
  have "k \<notin> fst ` set acc" using Cons.prems p by auto
  then have u: "AList.update k v acc = acc @ [(k, v)]"
    by (induction acc) auto
  have "distinct (map fst ((acc @ [(k, v)]) @ ps))" using Cons.prems p by auto
  from Cons.IH [OF this] show ?case using p u by simp
qed

lemma dict_of_distinct: "distinct (map fst ps) \<Longrightarrow> dict_of ps = ps"
  using foldl_update_append [of "[]" ps] by (simp add: dict_of_def)

lemma distinct_ascii_lowercase: "distinct ascii_lowercase"
  by (simp add: ascii_lowercase_def)

lemma distinct_names: "distinct (map (\<lambda>c. [c]) (take n ascii_lowercase))"
  by (simp add: distinct_map distinct_ascii_lowercase inj_on_def)

lemma permutations_set_length:
  "p \<in> set (permutations xs) \<Longrightarrow> set p = set xs \<and> length p = length xs"
proof (induction xs arbitrary: p rule: permutations.induct)
  case (1 xs)
  show ?case
  proof (cases "xs = []")
    case True
    then show ?thesis using "1.prems" by (simp add: permutations.simps)
  next
    case False
    then obtain i q where i: "i < length xs" and q: "q \<in> set (permutations (take i xs @ drop (Suc i) xs))"
      and p: "p = xs ! i # q"
      using "1.prems" by (subst (asm) permutations.simps) auto
    have q': "set q = set (take i xs @ drop (Suc i) xs) \<and> length q = length (take i xs @ drop (Suc i) xs)"
      using "1.IH" [OF False _ q] i by simp
    have "xs = take i xs @ xs ! i # drop (Suc i) xs"
      using i by (rule id_take_nth_drop)
    then have "set xs = set (take i xs @ xs ! i # drop (Suc i) xs)" by simp
    then have "set xs = insert (xs ! i) (set (take i xs @ drop (Suc i) xs))" by simp
    then show ?thesis using p q' i by auto
  qed
qed

lemma permutations_set: "p \<in> set (permutations xs) \<Longrightarrow> set p = set xs"
  by (simp add: permutations_set_length)

lemma permutations_distinct: "p \<in> set (permutations xs) \<Longrightarrow> distinct p = distinct xs"
  using permutations_set_length [of p xs] by (metis card_distinct distinct_card)

lemma permutations_nonempty: "permutations xs \<noteq> []"
proof (induction xs rule: permutations.induct)
  case (1 xs)
  show ?case
  proof (cases "xs = []")
    case True
    then show ?thesis by (simp add: permutations.simps)
  next
    case False
    then have len: "0 < length xs" by simp
    have "permutations (take 0 xs @ drop (Suc 0) xs) \<noteq> []"
      using "1.IH" [OF False, of 0] len by simp
    then obtain q where "q \<in> set (permutations (take 0 xs @ drop (Suc 0) xs))"
      by (meson last_in_set)
    then have "xs ! 0 # q \<in> set (permutations xs)"
      using len False by (subst permutations.simps) force
    then show ?thesis by auto
  qed
qed

lemma shuffle_set: "shuffle xs r = (ys, r') \<Longrightarrow> set ys = set xs"
  using permutations_nonempty [of xs]
  by (auto simp: shuffle_def Let_def intro!: permutations_set)

lemma shuffle_distinct: "shuffle xs r = (ys, r') \<Longrightarrow> distinct ys = distinct xs"
  using permutations_nonempty [of xs]
  by (auto simp: shuffle_def Let_def intro!: permutations_distinct)

lemma py_range_empty: "n \<le> 0 \<Longrightarrow> py_range n = []"
  by (simp add: py_range_def)

lemma orientations_empty:
  "d \<le> 0 \<or> d < L \<Longrightarrow> orientations1 d L = [] \<and> orientations2 d L = [] \<and> orientations_S d L = []"
  by (auto simp: orientations1_def orientations2_def orientations_S_def py_range_empty)

lemma generateComponentLayouts_loop_total:
  "\<forall>n \<in> set ns. \<exists>L. map_of (shipLengths s) n = Some L \<Longrightarrow>
   \<exists>s'. generateComponentLayouts_loop ns s = Returns s'"
proof (induction ns arbitrary: s)
  case Nil
  show ?case by simp
next
  case (Cons n ns)
  obtain L where L: "map_of (shipLengths s) n = Some L" using Cons.prems by auto
  show ?case
    using Cons.prems by (simp add: getitem_Some [OF L] Let_def Cons.IH)
qed



lemma isdisjoint_commute: "isdisjoint a b = isdisjoint b a"
  by (auto simp: isdisjoint_def)






lemma map_fst_zip_le: "length xs \<le> length ys \<Longrightarrow> map fst (zip xs ys) = xs"
  by (simp add: map_fst_zip_take)


lemma length_names: "length (map (\<lambda>c. [c]) (take (length shs) ascii_lowercase)) \<le> length shs"
  by simp

lemma Battleship_init_Returns: "\<exists>s. Battleship_init d shs = Returns (s :: 'c game)"
proof -
  define nms where "nms = map (\<lambda>c. [c]) (take (length shs) ascii_lowercase)"
  define s0 :: "'c game" where "s0 = new_object\<lparr>dim := d, numShips := length shs, ships := shs, names := nms,
                sunkDict := dict_of (zip nms (map (\<lambda>i. 0) shs)),
                shipLengths := dict_of (zip nms shs)\<rparr>"
  have len: "length nms \<le> length shs" by (simp add: nms_def)
  have dn: "distinct nms" unfolding nms_def by (rule distinct_names)
  have sl: "shipLengths s0 = zip nms shs"
    using dn len by (simp add: s0_def dict_of_distinct map_fst_zip_le)
  have "\<forall>n \<in> set nms. \<exists>L. map_of (zip nms shs) n = Some L"
  proof
    fix n assume "n \<in> set nms"
    then have "n \<in> fst ` set (zip nms shs)"
      using map_fst_zip_le [OF len] by (metis set_map)
    then show "\<exists>L. map_of (zip nms shs) n = Some L"
      by (metis map_of_eq_None_iff not_Some_eq)
  qed
  then have "\<forall>n \<in> set nms. \<exists>L. map_of (shipLengths (s0\<lparr>possibleShipsDict := [], possibleShipsNumDict := []\<rparr>)) n = Some L"
    using sl by simp
  from generateComponentLayouts_loop_total [OF this]
  obtain s1 where "generateComponentLayouts_loop nms (s0\<lparr>possibleShipsDict := [], possibleShipsNumDict := []\<rparr>) = Returns s1"
    by (elim exE)
  then have "generateComponentLayouts s0 = Returns s1"
    by (simp add: generateComponentLayouts_def s0_def)
  then show ?thesis
    by (simp add: Battleship_init_def Let_def nms_def [symmetric] s0_def [symmetric])
qed


lemma randint_Returns: "randint n r = Returns (i, r') \<Longrightarrow> i < n"
  by (auto simp: randint_def split: if_splits)



lemma fst_set_zip_le: "length xs \<le> length ys \<Longrightarrow> fst ` set (zip xs ys) = set xs"
  by (metis map_fst_zip_le set_map)












































section \<open>Statistics variant: construction\<close>

lemma generateComponentLayouts_loop_S_total:
  "\<forall>n \<in> set ns. \<exists>L. map_of (shipLengths s) n = Some L \<Longrightarrow>
   \<exists>s'. generateComponentLayouts_loop_S ns s = Returns s'"
proof (induction ns arbitrary: s)
  case Nil
  show ?case by simp
next
  case (Cons n ns)
  obtain L where L: "map_of (shipLengths s) n = Some L" using Cons.prems by auto
  show ?case
    using Cons.prems by (simp add: getitem_Some [OF L] Let_def Cons.IH)
qed


lemma names_have_lengths:
  assumes "length nms \<le> length shs"
  shows "\<forall>n \<in> set nms. \<exists>L. map_of (zip nms shs) n = Some L"
proof
  fix n assume "n \<in> set nms"
  then have "n \<in> fst ` set (zip nms shs)"
    using fst_set_zip_le [OF assms] by simp
  then show "\<exists>L. map_of (zip nms shs) n = Some L"
    by (metis map_of_eq_None_iff not_Some_eq)
qed

lemma sorted_names_set: "set (sorted_list_of_fset (fset_of_list xs)) = set xs"
  by (simp add: fset_of_list.rep_eq)


lemma Battleship_init_S_Returns: "\<exists>s. Battleship_init_S d shs = Returns (s :: 'c game)"
proof -
  define nms where "nms = map (\<lambda>c. [c]) (take (length shs) ascii_lowercase)"
  define s0 :: "'c game" where "s0 = new_object\<lparr>dim := d, numShips := length shs, ships := shs, names := nms,
                sunkDict := dict_of (zip nms (map (\<lambda>i. 0) shs)),
                shipLengths := dict_of (zip nms shs)\<rparr>"
  define s00 where "s00 = s0\<lparr>possibleShipsDict := [], possibleShipsNumDict := []\<rparr>"
  have len: "length nms \<le> length shs" by (simp add: nms_def)
  have dn: "distinct nms" unfolding nms_def by (rule distinct_names)
  have sl: "shipLengths s00 = zip nms shs" "names s0 = nms"
    using dn len by (simp_all add: s00_def s0_def dict_of_distinct map_fst_zip_le)
  have "\<forall>n \<in> set (sorted_list_of_fset (fset_of_list nms)). \<exists>L. map_of (shipLengths s00) n = Some L"
    using names_have_lengths [OF len] by (simp add: sl fset_of_list.rep_eq)
  from generateComponentLayouts_loop_S_total [OF this]
  obtain s1 where "generateComponentLayouts_loop_S (sorted_list_of_fset (fset_of_list nms)) s00 = Returns s1"
    by (elim exE)
  then have "generateComponentLayouts_S s0 = Returns s1"
    by (simp add: generateComponentLayouts_S_def s00_def sl)
  then show ?thesis
    by (simp add: Battleship_init_S_def Let_def nms_def [symmetric] s0_def [symmetric])
qed


section \<open>Statistics variant: the refresh of the candidate lists\<close>





lemma survives_S_empty:
  "survives_S s (fcard (hitsSunk s)) L {||} \<longleftrightarrow> L = 0"
  by (auto simp: survives_S_def)































section \<open>The candidate lists after a refresh\<close>








section \<open>The true placement stays a candidate\<close>





end
